theory Spec2Isabelle
  imports Main "HOL-Library.Word"
begin

section \<open>duckhouse: connection-scoped DuckDB sessions over HTTP\<close>

text \<open>
  A shallow embedding of the HTTP gateway of \<^verbatim>\<open>koron/duckhouse\<close> (the refined
  variant with the three registries \<^verbatim>\<open>idSet\<close>, \<^verbatim>\<open>connToID\<close> and \<^verbatim>\<open>idToDB\<close>).
  Each Go function is a HOL function of the same name. The three global
  \<^verbatim>\<open>sync.Map\<close> values are the fields of the record \<open>registry\<close>, which every
  function takes and returns; one call of a function is one atomic step, so the
  model describes sequential executions of the hooks and of the handler.
\<close>

subsection \<open>Identities, handles and errors\<close>

text \<open>
  A \<^verbatim>\<open>net.Conn\<close> and a \<^verbatim>\<open>*sql.DB\<close> are used by the code as opaque identities
  only (map keys, pointers that are logged): they are natural numbers here.
  A connection ID is a \<^verbatim>\<open>uint64\<close>.
\<close>

type_synonym conn = nat
type_synonym dbh = nat
type_synonym connid = "64 word"

text \<open>
  The \<^verbatim>\<open>error\<close> values the functions return. The first two are built by
  \<^verbatim>\<open>fmt.Errorf\<close> in the code; the others come from \<^verbatim>\<open>database/sql\<close>, the
  engine and \<^verbatim>\<open>encoding/csv\<close>. \<open>ErrScanArity\<close> is the error of
  \<^verbatim>\<open>Rows.Scan\<close> when the number of destinations is not the number of values of
  the row.
\<close>

datatype error =
    ErrNoConnID
  | ErrNoIDForConn conn
  | ErrOpen string
  | ErrQuery string
  | ErrColumnTypes string
  | ErrScan string
  | ErrScanArity nat nat
  | ErrWrite

subsection \<open>The operations of \<^verbatim>\<open>sync.Map\<close> that the code uses\<close>

definition Load :: "('k \<rightharpoonup> 'v) \<Rightarrow> 'k \<Rightarrow> 'v option" where
  "Load m k = m k"

definition Store :: "('k \<rightharpoonup> 'v) \<Rightarrow> 'k \<Rightarrow> 'v \<Rightarrow> ('k \<rightharpoonup> 'v)" where
  "Store m k v = m(k \<mapsto> v)"

definition Delete :: "('k \<rightharpoonup> 'v) \<Rightarrow> 'k \<Rightarrow> ('k \<rightharpoonup> 'v)" where
  "Delete m k = m(k := None)"

text \<open>\<^verbatim>\<open>LoadOrStore\<close> returns the value now in the map, whether it was loaded, and the map.\<close>

definition LoadOrStore :: "('k \<rightharpoonup> 'v) \<Rightarrow> 'k \<Rightarrow> 'v \<Rightarrow> 'v \<times> bool \<times> ('k \<rightharpoonup> 'v)" where
  "LoadOrStore m k v = (case m k of Some a \<Rightarrow> (a, True, m) | None \<Rightarrow> (v, False, m(k \<mapsto> v)))"

definition LoadAndDelete :: "('k \<rightharpoonup> 'v) \<Rightarrow> 'k \<Rightarrow> 'v option \<times> ('k \<rightharpoonup> 'v)" where
  "LoadAndDelete m k = (m k, m(k := None))"

subsection \<open>The registry\<close>

text \<open>
  The three package-level maps, and the log of \<^verbatim>\<open>db.Close()\<close> calls made so far
  (in call order), which is how a second close of a handle would show.
\<close>

record registry =
  idSet :: "connid \<rightharpoonup> bool"
  connToID :: "conn \<rightharpoonup> connid"
  idToDB :: "connid \<rightharpoonup> dbh"
  closed :: "dbh list"


text \<open>
  \<^verbatim>\<open>duckhouseNewConnID\<close>: the loop \<^verbatim>\<open>for { id := rand.Uint64(); ... }\<close>. The
  random source is the sequence \<open>rnd\<close> of the values that successive calls of
  \<^verbatim>\<open>rand.Uint64\<close> return, read at the cursor \<open>n\<close>; the function returns the
  reserved ID, the registry and the cursor after the last draw. The loop has no
  exit but the \<^verbatim>\<open>return\<close>, so the function is partial: \<open>None\<close> is "never returns".
\<close>

partial_function (option) duckhouseNewConnID ::
  "(nat \<Rightarrow> connid) \<Rightarrow> conn \<Rightarrow> registry \<Rightarrow> nat \<Rightarrow> (connid \<times> registry \<times> nat) option" where
  "duckhouseNewConnID rnd c s n =
     (let cid = rnd n;
          (_, ok, ids) = LoadOrStore (idSet s) cid True
      in if \<not> ok
         then Some (cid, s\<lparr>idSet := ids, connToID := Store (connToID s) c cid\<rparr>, Suc n)
         else duckhouseNewConnID rnd c (s\<lparr>idSet := ids\<rparr>) (Suc n))"

text \<open>
  \<^verbatim>\<open>duckhouseCloseConn\<close> returns the error (\<open>None\<close> is Go's \<^verbatim>\<open>nil\<close>) and the
  registry.
\<close>

definition duckhouseCloseConn :: "conn \<Rightarrow> registry \<Rightarrow> error option \<times> registry" where
  "duckhouseCloseConn c s =
     (let (rawid, c2i) = LoadAndDelete (connToID s) c
      in case rawid of
           None \<Rightarrow> (Some (ErrNoIDForConn c), s\<lparr>connToID := c2i\<rparr>)
         | Some cid \<Rightarrow>
             (let s1 = s\<lparr>connToID := c2i, idSet := Delete (idSet s) cid\<rparr>;
                  (rawdb, i2d) = LoadAndDelete (idToDB s1) cid
              in case rawdb of
                   None \<Rightarrow> (None, s1\<lparr>idToDB := i2d\<rparr>)
                 | Some db \<Rightarrow> (None, s1\<lparr>idToDB := i2d, closed := closed s1 @ [db]\<rparr>)))"


text \<open>
  \<^verbatim>\<open>duckhouseConnState\<close>, the close hook: the error of \<^verbatim>\<open>duckhouseCloseConn\<close>
  is logged and dropped.
\<close>

datatype ConnState = StateNew | StateActive | StateIdle | StateHijacked | StateClosed

definition duckhouseConnState :: "conn \<Rightarrow> ConnState \<Rightarrow> registry \<Rightarrow> registry" where
  "duckhouseConnState c st s = (if st = StateClosed then snd (duckhouseCloseConn c s) else s)"

subsection \<open>Requests and responses\<close>

text \<open>
  What the handler reads of an \<^verbatim>\<open>*http.Request\<close>: the method, \<^verbatim>\<open>URL.Path\<close>, the
  bytes that \<^verbatim>\<open>io.ReadAll(r.Body)\<close> returns (its error is only logged), the
  pairs of \<^verbatim>\<open>URL.Query()\<close> in their order of occurrence, and the value stored in
  the request context under \<^verbatim>\<open>connIDKey{}\<close>, if any.
\<close>

record request =
  Method :: string
  Path :: string
  Body :: string
  URLQuery :: "(string \<times> string) list"
  ctxConnID :: "connid option"

text \<open>\<^verbatim>\<open>url.Values.Get\<close>: the first value of the key, the empty string when there is none.\<close>

definition Get :: "(string \<times> string) list \<Rightarrow> string \<Rightarrow> string" where
  "Get q k = (case map_of q k of None \<Rightarrow> [] | Some v \<Rightarrow> v)"

definition readQuery :: "request \<Rightarrow> string" where
  "readQuery r =
     (let b = Body r
      in if length b > 0 then b
         else let q = URLQuery r
              in if Get q ''q'' \<noteq> [] then Get q ''q''
                 else if Get q ''query'' \<noteq> [] then Get q ''query''
                 else [])"

text \<open>
  A response: the content type and status that were committed, and what was
  written to the body. CSV output is kept as records (the arguments of
  \<^verbatim>\<open>csv.Writer.Write\<close>), the text of an error as the error itself.
\<close>

datatype chunk = Text string | ErrText error | Record "string list"

record response =
  ContentType :: "string option"
  Status :: "nat option"
  Out :: "chunk list"

definition new_response :: response where
  "new_response = \<lparr>ContentType = None, Status = None, Out = []\<rparr>"

text \<open>Only the first \<^verbatim>\<open>WriteHeader\<close> counts; headers set after it are not sent.\<close>

definition WriteHeader :: "nat \<Rightarrow> response \<Rightarrow> response" where
  "WriteHeader code w = (case Status w of None \<Rightarrow> w\<lparr>Status := Some code\<rparr> | Some _ \<Rightarrow> w)"

definition SetContentType :: "string \<Rightarrow> response \<Rightarrow> response" where
  "SetContentType ct w = (case Status w of None \<Rightarrow> w\<lparr>ContentType := Some ct\<rparr> | Some _ \<Rightarrow> w)"

text \<open>A write to the body commits status 200 if none was.\<close>

definition WriteChunks :: "chunk list \<Rightarrow> response \<Rightarrow> response" where
  "WriteChunks cs w = (WriteHeader 200 w)\<lparr>Out := Out w @ cs\<rparr>"

definition CRLF :: string where
  "CRLF = [CHR 0x0D, CHR 0x0A]"

subsection \<open>Sessions\<close>

text \<open>
  \<^verbatim>\<open>duckhouseGetDB\<close>. The argument \<open>opened\<close> is what \<^verbatim>\<open>sql.Open("duckdb", "")\<close>
  returns if this call reaches it. The result is the error or the pair of the
  handle and the ID (which is 0 when the handle was already stored), and the
  registry. \<^verbatim>\<open>db.SetMaxIdleConns(0)\<close> and the log line do not touch the registry
  and are left out.
\<close>

definition duckhouseGetDB ::
  "(error + dbh) \<Rightarrow> request \<Rightarrow> registry \<Rightarrow> (error + dbh \<times> connid) \<times> registry" where
  "duckhouseGetDB opened r s =
     (case ctxConnID r of
        None \<Rightarrow> (Inl ErrNoConnID, s)
      | Some cid \<Rightarrow>
          (case Load (idToDB s) cid of
             Some rawdb \<Rightarrow> (Inr (rawdb, 0), s)
           | None \<Rightarrow>
               (case opened of
                  Inl err \<Rightarrow> (Inl err, s)
                | Inr db \<Rightarrow> (Inr (db, cid), s\<lparr>idToDB := Store (idToDB s) cid db\<rparr>))))"

subsection \<open>Result sets and their text\<close>

text \<open>
  The scalar that \<^verbatim>\<open>Rows.Scan\<close> stores into an \<^verbatim>\<open>*any\<close>: \<^verbatim>\<open>nil\<close> for NULL, a
  boolean, an integer, a string, or a value of another dynamic type (float, time,
  ...), which carries the text that \<^verbatim>\<open>fmt.Sprint\<close> gives it.
\<close>

datatype scalar = VNil | VBool bool | VInt int | VString string | VOther string

fun digits :: "nat \<Rightarrow> string" where
  "digits n = (if n < 10 then [char_of (48 + n)] else digits (n div 10) @ [char_of (48 + n mod 10)])"

definition itoa :: "int \<Rightarrow> string" where
  "itoa i = (if i < 0 then CHR ''-'' # digits (nat (- i)) else digits (nat i))"

fun Sprint :: "scalar \<Rightarrow> string" where
  "Sprint VNil = ''<nil>''"
| "Sprint (VBool b) = (if b then ''true'' else ''false'')"
| "Sprint (VInt i) = itoa i"
| "Sprint (VString s) = s"
| "Sprint (VOther s) = s"

text \<open>
  One result set of an \<^verbatim>\<open>*sql.Rows\<close>: what \<^verbatim>\<open>ColumnTypes\<close> returns for it (the
  names of the column types, in schema order) and, for each row that \<^verbatim>\<open>Next\<close>
  delivers, the values of the row or the error of scanning it. A driver error
  that makes \<^verbatim>\<open>Next\<close> return false ends the list (the code never reads
  \<^verbatim>\<open>rows.Err()\<close>). The cursor is on a current result set; \<^verbatim>\<open>NextResultSet\<close>
  moves to the first pending one.
\<close>

record resultset =
  ColumnTypes :: "error + string list"
  rowscans :: "(error + scalar list) list"

record sqlrows =
  current :: resultset
  pending :: "resultset list"

text \<open>A result set with the given column names and rows, free of errors.\<close>

definition resultSet :: "string list \<Rightarrow> scalar list list \<Rightarrow> resultset" where
  "resultSet names rws = \<lparr>ColumnTypes = Inr names, rowscans = map Inr rws\<rparr>"

text \<open>\<^verbatim>\<open>rows.Scan(values...)\<close> with \<open>n\<close> destinations.\<close>

definition Scan :: "nat \<Rightarrow> (error + scalar list) \<Rightarrow> error + scalar list" where
  "Scan n row =
     (case row of
        Inl err \<Rightarrow> Inl err
      | Inr vs \<Rightarrow> if length vs \<noteq> n then Inl (ErrScanArity (length vs) n) else Inr vs)"

subsection \<open>The CSV encoder\<close>

text \<open>
  The \<^verbatim>\<open>csv.Writer\<close> is the list of the records it has accepted, which reach the
  response when it is flushed. \<open>lim\<close> says when the sink fails: with
  \<open>Some k\<close> the call of \<^verbatim>\<open>Write\<close> after \<open>k\<close> accepted records returns an error,
  with \<open>None\<close> no call does.
\<close>

type_synonym csvwriter = "string list list"

definition csvWrite :: "nat option \<Rightarrow> csvwriter \<Rightarrow> string list \<Rightarrow> error + csvwriter" where
  "csvWrite lim ww rec = (if lim = Some (length ww) then Inl ErrWrite else Inr (ww @ [rec]))"

definition csvFlush :: "csvwriter \<Rightarrow> response \<Rightarrow> response" where
  "csvFlush ww w = WriteChunks (map Record ww) w"

text \<open>The header of one result set: written only when there is a column.\<close>

definition writeHeaderRecord :: "nat option \<Rightarrow> csvwriter \<Rightarrow> string list \<Rightarrow> error + csvwriter" where
  "writeHeaderRecord lim ww types =
     (if length types > 0 then csvWrite lim ww types else Inr ww)"

text \<open>The loop \<^verbatim>\<open>for rows.Next() { ... }\<close> over the rows of one result set.\<close>

fun writeRecords ::
  "nat option \<Rightarrow> nat \<Rightarrow> csvwriter \<Rightarrow> (error + scalar list) list \<Rightarrow> error + csvwriter" where
  "writeRecords lim n ww [] = Inr ww"
| "writeRecords lim n ww (row # rest) =
     (case Scan n row of
        Inl err \<Rightarrow> Inl err
      | Inr vals \<Rightarrow>
          (case csvWrite lim ww (map Sprint vals) of
             Inl err \<Rightarrow> Inl err
           | Inr ww' \<Rightarrow> writeRecords lim n ww' rest))"

text \<open>The body of the outer loop, for one result set.\<close>

definition writeResultSet :: "nat option \<Rightarrow> csvwriter \<Rightarrow> resultset \<Rightarrow> error + csvwriter" where
  "writeResultSet lim ww rs =
     (case ColumnTypes rs of
        Inl err \<Rightarrow> Inl err
      | Inr types \<Rightarrow>
          (case writeHeaderRecord lim ww types of
             Inl err \<Rightarrow> Inl err
           | Inr ww' \<Rightarrow> writeRecords lim (length types) ww' (rowscans rs)))"

text \<open>The outer loop: it ends when \<^verbatim>\<open>NextResultSet\<close> finds no pending result set.\<close>

fun writeResultSets ::
  "nat option \<Rightarrow> csvwriter \<Rightarrow> resultset \<Rightarrow> resultset list \<Rightarrow> error + csvwriter" where
  "writeResultSets lim ww rs [] = writeResultSet lim ww rs"
| "writeResultSets lim ww rs (nxt # rest) =
     (case writeResultSet lim ww rs of
        Inl err \<Rightarrow> Inl err
      | Inr ww' \<Rightarrow> writeResultSets lim ww' nxt rest)"

text \<open>
  \<^verbatim>\<open>writeAsCSV\<close>. On an error it returns before \<^verbatim>\<open>ww.Flush()\<close>, and the accepted
  records stay in the writer. The column types that the code prints to standard
  output are left out.
\<close>

definition writeAsCSV :: "nat option \<Rightarrow> response \<Rightarrow> sqlrows \<Rightarrow> error option \<times> response" where
  "writeAsCSV lim w rows =
     (let w1 = WriteHeader 200 (SetContentType ''text/csv'' w)
      in case writeResultSets lim [] (current rows) (pending rows) of
           Inl err \<Rightarrow> (Some err, w1)
         | Inr ww \<Rightarrow> (None, csvFlush ww w1))"

subsection \<open>The handler\<close>

text \<open>
  What the handler gets from outside the registry: the outcome of \<^verbatim>\<open>sql.Open\<close>,
  the engine (\<^verbatim>\<open>db.QueryContext\<close>: for a handle and a query, an error or a cursor)
  and the failure point of the response sink. The deferred \<^verbatim>\<open>rows.Close()\<close>
  releases the cursor inside the engine and is left out.
\<close>

record env =
  sqlOpen :: "error + dbh"
  QueryContext :: "dbh \<Rightarrow> string \<Rightarrow> error + sqlrows"
  writeLimit :: "nat option"

definition duckhouseHandleQuery ::
  "env \<Rightarrow> response \<Rightarrow> request \<Rightarrow> registry \<Rightarrow> response \<times> registry" where
  "duckhouseHandleQuery e w r s =
     (if Method r \<noteq> ''GET'' \<and> Method r \<noteq> ''POST''
      then (WriteChunks [Text (''Not Found'' @ CRLF)] (WriteHeader 404 w), s)
      else
        (let query = readQuery r
         in if query = []
            then (WriteChunks [Text (''No queries, please specify a query'' @ CRLF)]
                    (WriteHeader 400 w), s)
            else
              (case duckhouseGetDB (sqlOpen e) r s of
                 (Inl err, s') \<Rightarrow>
                   (WriteChunks [Text ''No associated DB: '', ErrText err] (WriteHeader 500 w), s')
               | (Inr (db, cid), s') \<Rightarrow>
                   (case QueryContext e db query of
                      Inl err \<Rightarrow>
                        (WriteChunks [Text ''Query failed: '', ErrText err, Text CRLF]
                           (WriteHeader 500 w), s')
                    | Inr rows \<Rightarrow>
                        (case writeAsCSV (writeLimit e) w rows of
                           (None, w') \<Rightarrow> (w', s')
                         | (Some err, w') \<Rightarrow>
                             (WriteChunks [Text ''Serialization error: '', ErrText err, Text CRLF]
                                (WriteHeader 500 w'), s'))))))"

text \<open>\<^verbatim>\<open>strings.HasPrefix\<close>.\<close>

definition HasPrefix :: "string \<Rightarrow> string \<Rightarrow> bool" where
  "HasPrefix s pre = (length s \<ge> length pre \<and> take (length pre) s = pre)"

definition duckhouseHandler :: "env \<Rightarrow> request \<Rightarrow> registry \<Rightarrow> response \<times> registry" where
  "duckhouseHandler e r s =
     (if Path r = ''/'' then duckhouseHandleQuery e new_response r s
      else if Path r = ''/ping'' \<or> HasPrefix (Path r) ''/ping/''
      then (WriteChunks [Text (''OK'' @ CRLF)] (WriteHeader 200 new_response), s)
      else (WriteChunks [Text (''Not Found'' @ CRLF)] (WriteHeader 404 new_response), s))"

subsection \<open>Opening connections\<close>




subsection \<open>Example random sources and registries\<close>

text \<open>Random sources: one that always draws 7, one that draws 7 three times and then 9,
  and one that draws 5, 5, 6, 6, 7, ...\<close>

definition stuck_rand :: "nat \<Rightarrow> connid" where
  "stuck_rand n = 7"

definition late_rand :: "nat \<Rightarrow> connid" where
  "late_rand n = (if n < 3 then 7 else 9)"


text \<open>A registry where connection 0 holds the ID 7, and one where the connections
  10, 11 and 12 hold the IDs 5, 6 and 7.\<close>

definition stuck_registry :: registry where
  "stuck_registry = \<lparr>idSet = [7 \<mapsto> True], connToID = [0 \<mapsto> 7], idToDB = Map.empty, closed = []\<rparr>"

definition three_conns_registry :: registry where
  "three_conns_registry =
     \<lparr>idSet = [5 \<mapsto> True, 6 \<mapsto> True, 7 \<mapsto> True],
      connToID = [10 \<mapsto> 5, 11 \<mapsto> 6, 12 \<mapsto> 7],
      idToDB = Map.empty, closed = []\<rparr>"

subsection \<open>Cursors without errors, and the records the specification names\<close>

text \<open>
  The cursor over the result sets \<open>p # ps\<close>, each given by its column names and
  its rows, free of errors.
\<close>

definition rowsOf ::
  "string list \<times> scalar list list \<Rightarrow> (string list \<times> scalar list list) list \<Rightarrow> sqlrows" where
  "rowsOf p ps = \<lparr>current = resultSet (fst p) (snd p),
                  pending = map (\<lambda>q. resultSet (fst q) (snd q)) ps\<rparr>"

text \<open>
  The records as the specification words them, for comparison with the code:
  for each result set, a header record with the column names, then one record
  per row.
\<close>

definition spec_records :: "(string list \<times> scalar list list) list \<Rightarrow> string list list" where
  "spec_records rss = concat (map (\<lambda>p. fst p # map (map Sprint) (snd p)) rss)"

subsection \<open>An example request\<close>

text \<open>An environment whose engine rejects every query, and a \<^verbatim>\<open>GET /?x=1\<close> without
  a body on the connection with ID 5.\<close>

definition example_env :: env where
  "example_env = \<lparr>sqlOpen = Inr 1, QueryContext = (\<lambda>db q. Inl (ErrQuery q)), writeLimit = None\<rparr>"

definition empty_get :: request where
  "empty_get = \<lparr>Method = ''GET'', Path = ''/'', Body = [], URLQuery = [(''x'', ''1'')],
                ctxConnID = Some 5\<rparr>"

section \<open>Properties\<close>

subsection \<open>Releasing a connection\<close>

lemma LoadAndDelete_absent: "m k = None \<Longrightarrow> LoadAndDelete m k = (None, m)"
  by (auto simp: LoadAndDelete_def)

lemma duckhouseCloseConn_absent:
  "connToID s c = None \<Longrightarrow> duckhouseCloseConn c s = (Some (ErrNoIDForConn c), s)"
  by (simp add: duckhouseCloseConn_def LoadAndDelete_absent)

lemma duckhouseCloseConn_removes: "connToID (snd (duckhouseCloseConn c s)) c = None"
  by (simp add: duckhouseCloseConn_def LoadAndDelete_def Let_def split: option.splits)

lemma duckhouseCloseConn_closed:
  "closed (snd (duckhouseCloseConn c s)) =
     closed s @ (case connToID s c of None \<Rightarrow> []
                 | Some cid \<Rightarrow> (case idToDB s cid of None \<Rightarrow> [] | Some db \<Rightarrow> [db]))"
  by (simp add: duckhouseCloseConn_def LoadAndDelete_def Let_def Delete_def split: option.splits)

text \<open>
  Claim C1. Releasing a connection a second time returns the "no ID" error for the
  absent connection-to-ID mapping and leaves the whole registry as the first
  release left it: no mapping changes and the log of closed sessions does not
  grow, so the session that the first release closed (at most one) is not closed
  again.
\<close>

theorem duckhouseCloseConn_idempotent:
  "duckhouseCloseConn c (snd (duckhouseCloseConn c s))
     = (Some (ErrNoIDForConn c), snd (duckhouseCloseConn c s))
   \<and> closed (snd (duckhouseCloseConn c (snd (duckhouseCloseConn c s))))
     = closed s @ (case connToID s c of None \<Rightarrow> []
                   | Some cid \<Rightarrow> (case idToDB s cid of None \<Rightarrow> [] | Some db \<Rightarrow> [db]))"
  by (simp add: duckhouseCloseConn_absent duckhouseCloseConn_removes duckhouseCloseConn_closed)

subsection \<open>The retry loop of \<^verbatim>\<open>duckhouseNewConnID\<close>\<close>

text \<open>One iteration: a draw that is not in \<^verbatim>\<open>idSet\<close> is reserved and returned, any
  other draw leaves the registry as it is and the loop goes on.\<close>

lemma duckhouseNewConnID_unfold:
  "duckhouseNewConnID rnd c s n =
     (if idSet s (rnd n) = None
      then Some (rnd n, s\<lparr>idSet := (idSet s)(rnd n \<mapsto> True),
                          connToID := (connToID s)(c \<mapsto> rnd n)\<rparr>, Suc n)
      else duckhouseNewConnID rnd c s (Suc n))"
  by (subst duckhouseNewConnID.simps)
     (auto simp: LoadOrStore_def Store_def Let_def split: option.splits)

lemma duckhouseNewConnID_returns:
  "(\<forall>j<k. idSet s (rnd (n + j)) \<noteq> None) \<Longrightarrow> idSet s (rnd (n + k)) = None \<Longrightarrow>
   duckhouseNewConnID rnd c s n =
     Some (rnd (n + k), s\<lparr>idSet := (idSet s)(rnd (n + k) \<mapsto> True),
                            connToID := (connToID s)(c \<mapsto> rnd (n + k))\<rparr>, Suc (n + k))"
proof (induction k arbitrary: n)
  case 0
  then show ?case by (subst duckhouseNewConnID_unfold) simp
next
  case (Suc k)
  have a: "idSet s (rnd n) \<noteq> None" using Suc.prems(1) by (metis add.right_neutral zero_less_Suc)
  have b: "\<forall>j<k. idSet s (rnd (Suc n + j)) \<noteq> None" using Suc.prems(1) by auto
  have c: "idSet s (rnd (Suc n + k)) = None" using Suc.prems(2) by simp
  have "duckhouseNewConnID rnd c s n = duckhouseNewConnID rnd c s (Suc n)"
    using a by (subst duckhouseNewConnID_unfold) auto
  also note Suc.IH[OF b c]
  finally show ?case by simp
qed

lemma duckhouseNewConnID_Some_fresh:
  assumes "duckhouseNewConnID rnd c s n = Some r"
  shows "\<exists>k. idSet s (rnd (n + k)) = None"
proof (rule duckhouseNewConnID.raw_induct
    [where P = "\<lambda>rnd c s n r. \<exists>k. idSet s (rnd (n + k)) = None", OF _ assms])
  fix loop :: "(nat \<Rightarrow> connid) \<Rightarrow> conn \<Rightarrow> registry \<Rightarrow> nat \<Rightarrow> (connid \<times> registry \<times> nat) option"
  fix rnd c s n r
  assume IH: "\<And>rnd c s n r. loop rnd c s n = Some r \<Longrightarrow> \<exists>k. idSet s (rnd (n + k)) = None"
  assume eq: "(let cid = rnd n; (_, ok, ids) = LoadOrStore (idSet s) cid True
      in if \<not> ok
         then Some (cid, s\<lparr>idSet := ids, connToID := Store (connToID s) c cid\<rparr>, Suc n)
         else loop rnd c (s\<lparr>idSet := ids\<rparr>) (Suc n)) = Some r"
  show "\<exists>k. idSet s (rnd (n + k)) = None"
  proof (cases "idSet s (rnd n)")
    case None
    then have "idSet s (rnd (n + 0)) = None" by simp
    then show ?thesis by blast
  next
    case (Some a)
    with eq have "loop rnd c s (Suc n) = Some r"
      by (simp add: LoadOrStore_def Let_def)
    then obtain k where "idSet s (rnd (Suc n + k)) = None" using IH by blast
    then have "idSet s (rnd (n + Suc k)) = None" by simp
    then show ?thesis by blast
  qed
qed

lemma duckhouseNewConnID_never:
  "(\<forall>j. idSet s (rnd (n + j)) \<noteq> None) \<Longrightarrow> duckhouseNewConnID rnd c s n = None"
  using duckhouseNewConnID_Some_fresh by (metis not_Some_eq)

text \<open>
  Claim C5 (as amended). The loop has no retry cap and no failure exit. It
  returns at the first draw that is not in the active-ID set, however many
  colliding draws come before it (\<open>k\<close> is arbitrary), reserving that draw; and
  when every draw from the cursor on is in the set, it never returns.
\<close>

theorem duckhouseNewConnID_no_retry_cap:
  "((\<forall>j<k. idSet s (rnd (n + j)) \<noteq> None) \<longrightarrow> idSet s (rnd (n + k)) = None \<longrightarrow>
      duckhouseNewConnID rnd c s n =
        Some (rnd (n + k),
              s\<lparr>idSet := (idSet s)(rnd (n + k) \<mapsto> True),
                 connToID := (connToID s)(c \<mapsto> rnd (n + k))\<rparr>,
              Suc (n + k)))
   \<and> ((\<forall>j. idSet s (rnd (n + j)) \<noteq> None) \<longrightarrow> duckhouseNewConnID rnd c s n = None)"
  using duckhouseNewConnID_returns[of k s rnd n c] duckhouseNewConnID_never[of s rnd n c]
  by blast

theorem duckhouseNewConnID_no_retry_cap_witness:
  "duckhouseNewConnID late_rand 1 stuck_registry 0 =
     Some (9, stuck_registry\<lparr>idSet := (idSet stuck_registry)(9 \<mapsto> True),
                              connToID := (connToID stuck_registry)(1 \<mapsto> 9)\<rparr>, 4)
   \<and> duckhouseNewConnID stuck_rand 2 stuck_registry 5 = None"
proof -
  have a: "\<forall>j<3. idSet stuck_registry (late_rand (0 + j)) \<noteq> None"
    by (simp add: late_rand_def stuck_registry_def)
  have b: "idSet stuck_registry (late_rand (0 + 3)) = None"
    by (simp add: late_rand_def stuck_registry_def)
  have c: "\<forall>j. idSet stuck_registry (stuck_rand (5 + j)) \<noteq> None"
    by (simp add: stuck_rand_def stuck_registry_def)
  from duckhouseNewConnID_no_retry_cap[of 3 stuck_registry late_rand 0 1] a b
  have "duckhouseNewConnID late_rand 1 stuck_registry 0 =
     Some (late_rand (0 + 3),
           stuck_registry\<lparr>idSet := (idSet stuck_registry)(late_rand (0 + 3) \<mapsto> True),
                           connToID := (connToID stuck_registry)(1 \<mapsto> late_rand (0 + 3))\<rparr>,
           Suc (0 + 3))" by blast
  moreover from duckhouseNewConnID_no_retry_cap[of 0 stuck_registry stuck_rand 5 2] c
  have "duckhouseNewConnID stuck_rand 2 stuck_registry 5 = None" by blast
  ultimately show ?thesis by (simp add: late_rand_def)
qed

text \<open>
  The claim as stated fails: with the ID 7 active and a source that only draws 7,
  the call does not terminate, and no cap turns this into an error.
\<close>

theorem duckhouseNewConnID_spins_counterexample:
  "duckhouseNewConnID stuck_rand 1 stuck_registry 0 = None"
  by (rule duckhouseNewConnID_never) (simp add: stuck_rand_def stuck_registry_def)


subsection \<open>Distinct IDs\<close>








subsection \<open>Sessions on demand\<close>

text \<open>
  Claim C4. For a request that carries the ID \<open>cid\<close>: when a session is stored
  for \<open>cid\<close>, \<^verbatim>\<open>duckhouseGetDB\<close> returns it and changes nothing (the ID it
  returns next to the handle is then 0, which the caller only logs); when none
  is stored and \<^verbatim>\<open>sql.Open\<close> succeeds, the new handle is stored under \<open>cid\<close> and
  returned; when \<^verbatim>\<open>sql.Open\<close> fails, the error is returned and the registry is
  unchanged, so that a later call whose \<^verbatim>\<open>sql.Open\<close> succeeds creates and stores
  the session.
\<close>

theorem duckhouseGetDB_get_or_create:
  "(ctxConnID r = Some cid \<longrightarrow> idToDB s cid = Some db0 \<longrightarrow>
      duckhouseGetDB opened r s = (Inr (db0, 0), s))
   \<and> (ctxConnID r = Some cid \<longrightarrow> idToDB s cid = None \<longrightarrow>
      duckhouseGetDB (Inr db) r s = (Inr (db, cid), s\<lparr>idToDB := (idToDB s)(cid \<mapsto> db)\<rparr>))
   \<and> (ctxConnID r = Some cid \<longrightarrow> idToDB s cid = None \<longrightarrow>
      duckhouseGetDB (Inl err) r s = (Inl err, s)
      \<and> duckhouseGetDB (Inr db) r (snd (duckhouseGetDB (Inl err) r s))
          = (Inr (db, cid), s\<lparr>idToDB := (idToDB s)(cid \<mapsto> db)\<rparr>))"
  by (simp add: duckhouseGetDB_def Load_def Store_def)

theorem duckhouseGetDB_get_or_create_witness:
  "duckhouseGetDB (Inl (ErrOpen ''out of memory'')) empty_get three_conns_registry
     = (Inl (ErrOpen ''out of memory''), three_conns_registry)
   \<and> duckhouseGetDB (Inr 1) empty_get three_conns_registry
     = (Inr (1, 5), three_conns_registry\<lparr>idToDB := (idToDB three_conns_registry)(5 \<mapsto> 1)\<rparr>)
   \<and> duckhouseGetDB (Inr 2) empty_get
        (three_conns_registry\<lparr>idToDB := (idToDB three_conns_registry)(5 \<mapsto> 1)\<rparr>)
     = (Inr (1, 0), three_conns_registry\<lparr>idToDB := (idToDB three_conns_registry)(5 \<mapsto> 1)\<rparr>)"
proof -
  have c: "ctxConnID empty_get = Some 5" by (simp add: empty_get_def)
  have n: "idToDB three_conns_registry 5 = None" by (simp add: three_conns_registry_def)
  have m: "idToDB (three_conns_registry\<lparr>idToDB := (idToDB three_conns_registry)(5 \<mapsto> 1)\<rparr>) 5
             = Some 1" by simp
  from duckhouseGetDB_get_or_create
         [of empty_get 5 three_conns_registry _ _ 1 "ErrOpen ''out of memory''"] c n
  have a: "duckhouseGetDB (Inl (ErrOpen ''out of memory'')) empty_get three_conns_registry
     = (Inl (ErrOpen ''out of memory''), three_conns_registry)"
    and b: "duckhouseGetDB (Inr 1) empty_get three_conns_registry
     = (Inr (1, 5), three_conns_registry\<lparr>idToDB := (idToDB three_conns_registry)(5 \<mapsto> 1)\<rparr>)"
    by blast+
  from duckhouseGetDB_get_or_create
         [of empty_get 5 "three_conns_registry\<lparr>idToDB := (idToDB three_conns_registry)(5 \<mapsto> 1)\<rparr>"
             1 "Inr 2"] c m
  have "duckhouseGetDB (Inr 2) empty_get
        (three_conns_registry\<lparr>idToDB := (idToDB three_conns_registry)(5 \<mapsto> 1)\<rparr>)
     = (Inr (1, 0), three_conns_registry\<lparr>idToDB := (idToDB three_conns_registry)(5 \<mapsto> 1)\<rparr>)"
    by blast
  with a b show ?thesis by blast
qed

subsection \<open>The query text and the empty query\<close>

lemma readQuery_empty:
  "Body r = [] \<Longrightarrow> Get (URLQuery r) ''q'' = [] \<Longrightarrow> Get (URLQuery r) ''query'' = [] \<Longrightarrow>
   readQuery r = []"
  by (simp add: readQuery_def)

lemma duckhouseHandleQuery_empty:
  "Method r = ''GET'' \<or> Method r = ''POST'' \<Longrightarrow> readQuery r = [] \<Longrightarrow>
   duckhouseHandleQuery e new_response r s =
     (\<lparr>ContentType = None, Status = Some 400,
       Out = [Text (''No queries, please specify a query'' @ CRLF)]\<rparr>, s)"
  by (auto simp: duckhouseHandleQuery_def new_response_def WriteChunks_def WriteHeader_def)

text \<open>
  Claim C6. A \<^verbatim>\<open>GET\<close> or \<^verbatim>\<open>POST\<close> request to \<^verbatim>\<open>/\<close> with an empty body and no
  (or an empty) \<^verbatim>\<open>q\<close> and \<^verbatim>\<open>query\<close> parameter is answered with status 400, and
  the registry after the request is the registry before it: no session is looked
  up or created.
\<close>

theorem duckhouseHandler_empty_query_400:
  assumes "Path r = ''/''" and "Method r = ''GET'' \<or> Method r = ''POST''"
    and "Body r = []" and "Get (URLQuery r) ''q'' = []" and "Get (URLQuery r) ''query'' = []"
  shows "Status (fst (duckhouseHandler e r s)) = Some 400
       \<and> snd (duckhouseHandler e r s) = s
       \<and> idToDB (snd (duckhouseHandler e r s)) = idToDB s"
  using assms
  by (simp add: duckhouseHandler_def duckhouseHandleQuery_empty readQuery_empty)

theorem duckhouseHandler_empty_query_400_witness:
  "Status (fst (duckhouseHandler example_env empty_get three_conns_registry)) = Some 400
   \<and> snd (duckhouseHandler example_env empty_get three_conns_registry) = three_conns_registry"
proof -
  have h: "Path empty_get = ''/''" "Method empty_get = ''GET'' \<or> Method empty_get = ''POST''"
    "Body empty_get = []" "Get (URLQuery empty_get) ''q'' = []"
    "Get (URLQuery empty_get) ''query'' = []"
    by (simp_all add: empty_get_def Get_def)
  from duckhouseHandler_empty_query_400[OF h] show ?thesis by simp
qed

text \<open>
  Claim C7. \<^verbatim>\<open>readQuery\<close> returns the body when it is not empty; else the
  parameter \<^verbatim>\<open>q\<close> when it is not empty; else the parameter \<^verbatim>\<open>query\<close> when it is
  not empty; else the empty string, and then the query endpoint answers a
  \<^verbatim>\<open>GET\<close> or \<^verbatim>\<open>POST\<close> with status 400.
\<close>

theorem readQuery_priority:
  "(Body r \<noteq> [] \<longrightarrow> readQuery r = Body r)
   \<and> (Body r = [] \<longrightarrow> Get (URLQuery r) ''q'' \<noteq> [] \<longrightarrow> readQuery r = Get (URLQuery r) ''q'')
   \<and> (Body r = [] \<longrightarrow> Get (URLQuery r) ''q'' = [] \<longrightarrow> Get (URLQuery r) ''query'' \<noteq> [] \<longrightarrow>
        readQuery r = Get (URLQuery r) ''query'')
   \<and> (Body r = [] \<longrightarrow> Get (URLQuery r) ''q'' = [] \<longrightarrow> Get (URLQuery r) ''query'' = [] \<longrightarrow>
        readQuery r = []
        \<and> (Method r = ''GET'' \<or> Method r = ''POST'' \<longrightarrow>
             Status (fst (duckhouseHandleQuery e new_response r s)) = Some 400))"
  by (simp add: readQuery_def duckhouseHandleQuery_empty)

theorem readQuery_priority_witness:
  "readQuery (empty_get\<lparr>Body := ''SELECT 1'', URLQuery := [(''q'', ''SELECT 2'')]\<rparr>) = ''SELECT 1''
   \<and> readQuery (empty_get\<lparr>URLQuery := [(''query'', ''SELECT 3''), (''q'', ''SELECT 2'')]\<rparr>)
       = ''SELECT 2''
   \<and> readQuery (empty_get\<lparr>URLQuery := [(''q'', []), (''query'', ''SELECT 3'')]\<rparr>) = ''SELECT 3''
   \<and> readQuery empty_get = []
   \<and> Status (fst (duckhouseHandleQuery example_env new_response empty_get three_conns_registry))
       = Some 400"
proof -
  let ?r1 = "empty_get\<lparr>Body := ''SELECT 1'', URLQuery := [(''q'', ''SELECT 2'')]\<rparr>"
  let ?r2 = "empty_get\<lparr>URLQuery := [(''query'', ''SELECT 3''), (''q'', ''SELECT 2'')]\<rparr>"
  let ?r3 = "empty_get\<lparr>URLQuery := [(''q'', []), (''query'', ''SELECT 3'')]\<rparr>"
  have "Body ?r1 \<noteq> []" by simp
  with readQuery_priority[of ?r1] have a: "readQuery ?r1 = ''SELECT 1''" by simp
  have "Body ?r2 = []" "Get (URLQuery ?r2) ''q'' \<noteq> []"
    by (simp_all add: empty_get_def Get_def)
  with readQuery_priority[of ?r2] have b: "readQuery ?r2 = ''SELECT 2''"
    by (simp add: Get_def)
  have "Body ?r3 = []" "Get (URLQuery ?r3) ''q'' = []" "Get (URLQuery ?r3) ''query'' \<noteq> []"
    by (simp_all add: empty_get_def Get_def)
  with readQuery_priority[of ?r3] have c: "readQuery ?r3 = ''SELECT 3''"
    by (simp add: Get_def)
  have "Body empty_get = []" "Get (URLQuery empty_get) ''q'' = []"
    "Get (URLQuery empty_get) ''query'' = []" "Method empty_get = ''GET''"
    by (simp_all add: empty_get_def Get_def)
  with readQuery_priority[of empty_get example_env three_conns_registry]
  have d: "readQuery empty_get = []"
    "Status (fst (duckhouseHandleQuery example_env new_response empty_get three_conns_registry))
       = Some 400" by simp_all
  from a b c d show ?thesis by blast
qed

subsection \<open>The liveness check\<close>

text \<open>
  Claim C9. Whatever the method (and the rest of the request), a request whose
  path is \<^verbatim>\<open>/ping\<close> or starts with \<^verbatim>\<open>/ping/\<close> gets status 200 and the body
  \<^verbatim>\<open>OK\<close> followed by CR LF, and the registry is untouched.
\<close>

theorem duckhouseHandler_ping:
  assumes "Path r = ''/ping'' \<or> HasPrefix (Path r) ''/ping/''"
  shows "duckhouseHandler e r s =
           (\<lparr>ContentType = None, Status = Some 200, Out = [Text (''OK'' @ CRLF)]\<rparr>, s)"
proof -
  have "Path r \<noteq> ''/''" using assms by (auto simp: HasPrefix_def)
  with assms show ?thesis
    by (simp add: duckhouseHandler_def new_response_def WriteChunks_def WriteHeader_def)
qed

theorem duckhouseHandler_ping_witness:
  "duckhouseHandler example_env (empty_get\<lparr>Method := ''DELETE'', Path := ''/ping''\<rparr>)
       three_conns_registry
     = (\<lparr>ContentType = None, Status = Some 200, Out = [Text (''OK'' @ CRLF)]\<rparr>, three_conns_registry)
   \<and> duckhouseHandler example_env (empty_get\<lparr>Method := ''PUT'', Path := ''/ping/anything''\<rparr>)
       three_conns_registry
     = (\<lparr>ContentType = None, Status = Some 200, Out = [Text (''OK'' @ CRLF)]\<rparr>, three_conns_registry)
   \<and> Status (fst (duckhouseHandler example_env (empty_get\<lparr>Method := ''DELETE''\<rparr>)
                     three_conns_registry)) = Some 404"
proof -
  let ?r1 = "empty_get\<lparr>Method := ''DELETE'', Path := ''/ping''\<rparr>"
  let ?r2 = "empty_get\<lparr>Method := ''PUT'', Path := ''/ping/anything''\<rparr>"
  have h1: "Path ?r1 = ''/ping'' \<or> HasPrefix (Path ?r1) ''/ping/''" by simp
  have h2: "Path ?r2 = ''/ping'' \<or> HasPrefix (Path ?r2) ''/ping/''"
    by (simp add: HasPrefix_def)
  have n: "Status (fst (duckhouseHandler example_env (empty_get\<lparr>Method := ''DELETE''\<rparr>)
                     three_conns_registry)) = Some 404"
    by (simp add: duckhouseHandler_def duckhouseHandleQuery_def empty_get_def new_response_def
        WriteChunks_def WriteHeader_def)
  from duckhouseHandler_ping[OF h1] duckhouseHandler_ping[OF h2] n show ?thesis by blast
qed

subsection \<open>The records that \<^verbatim>\<open>writeAsCSV\<close> emits\<close>

text \<open>
  On result sets without errors, where each row has one value per column, and
  with a sink that accepts every record, the loops append the header (if there
  is a column) and one record per row.
\<close>

lemma writeRecords_clean:
  "\<forall>row\<in>set rws. length row = n \<Longrightarrow>
   writeRecords None n ww (map Inr rws) = Inr (ww @ map (map Sprint) rws)"
  by (induction rws arbitrary: ww) (simp_all add: Scan_def csvWrite_def)

lemma writeResultSet_clean:
  "\<forall>row\<in>set rws. length row = length names \<Longrightarrow>
   writeResultSet None ww (resultSet names rws) =
     Inr (ww @ (if names = [] then [] else [names]) @ map (map Sprint) rws)"
  by (simp add: writeResultSet_def resultSet_def writeHeaderRecord_def csvWrite_def
      writeRecords_clean)

lemma writeResultSets_clean:
  "\<forall>p\<in>set (p # ps). \<forall>row\<in>set (snd p). length row = length (fst p) \<Longrightarrow>
   writeResultSets None ww (resultSet (fst p) (snd p)) (map (\<lambda>q. resultSet (fst q) (snd q)) ps) =
     Inr (ww @ concat (map (\<lambda>p. (if fst p = [] then [] else [fst p]) @ map (map Sprint) (snd p))
                         (p # ps)))"
proof (induction ps arbitrary: p ww)
  case Nil
  then show ?case by (simp add: writeResultSet_clean)
next
  case (Cons q ps)
  from Cons.prems have p: "\<forall>row\<in>set (snd p). length row = length (fst p)"
    and rest: "\<forall>p\<in>set (q # ps). \<forall>row\<in>set (snd p). length row = length (fst p)" by simp_all
  show ?case
    using Cons.IH[OF rest] by (simp add: writeResultSet_clean[OF p])
qed

lemma writeAsCSV_clean:
  assumes "\<forall>p\<in>set (p # ps). \<forall>row\<in>set (snd p). length row = length (fst p)"
  shows "writeAsCSV None new_response (rowsOf p ps) =
     (None, \<lparr>ContentType = Some ''text/csv'', Status = Some 200,
             Out = map Record (concat (map (\<lambda>p. (if fst p = [] then [] else [fst p])
                                              @ map (map Sprint) (snd p)) (p # ps)))\<rparr>)"
  using writeResultSets_clean[OF assms, of "[]"]
  by (simp add: writeAsCSV_def rowsOf_def new_response_def WriteHeader_def SetContentType_def
      csvFlush_def WriteChunks_def)

text \<open>
  Claim C3 (as amended). For every sequence of result sets (no scan or write
  error), \<^verbatim>\<open>writeAsCSV\<close> commits status 200 with content type \<^verbatim>\<open>text/csv\<close> and
  emits, for each result set in source order: one header record with the column
  names in schema order if the result set has at least one column, and no
  header record if it has none; then one record per row in row order, each value
  converted by \<^verbatim>\<open>fmt.Sprint\<close>. When every result set has a column this is the
  output the specification describes.
\<close>

theorem writeAsCSV_records:
  assumes "\<forall>p\<in>set (p # ps). \<forall>row\<in>set (snd p). length row = length (fst p)"
  shows "writeAsCSV None new_response (rowsOf p ps) =
           (None, \<lparr>ContentType = Some ''text/csv'', Status = Some 200,
                   Out = map Record
                     (concat (map (\<lambda>q. (if fst q = [] then [] else [fst q])
                                        @ map (map Sprint) (snd q)) (p # ps)))\<rparr>)
       \<and> ((\<forall>q\<in>set (p # ps). fst q \<noteq> []) \<longrightarrow>
            Out (snd (writeAsCSV None new_response (rowsOf p ps)))
              = map Record (spec_records (p # ps)))"
proof (intro conjI impI)
  show "writeAsCSV None new_response (rowsOf p ps) =
           (None, \<lparr>ContentType = Some ''text/csv'', Status = Some 200,
                   Out = map Record
                     (concat (map (\<lambda>q. (if fst q = [] then [] else [fst q])
                                        @ map (map Sprint) (snd q)) (p # ps)))\<rparr>)"
    by (rule writeAsCSV_clean[OF assms])
next
  assume cols: "\<forall>q\<in>set (p # ps). fst q \<noteq> []"
  have eq: "concat (map (\<lambda>q. (if fst q = [] then [] else [fst q]) @ map (map Sprint) (snd q)) qs)
          = spec_records qs" if "\<forall>q\<in>set qs. fst q \<noteq> []" for qs
    using that by (induction qs) (simp_all add: spec_records_def)
  show "Out (snd (writeAsCSV None new_response (rowsOf p ps)))
          = map Record (spec_records (p # ps))"
    by (simp only: writeAsCSV_clean[OF assms] snd_conv response.select_convs eq[OF cols])
qed

theorem writeAsCSV_records_witness:
  "writeAsCSV None new_response (rowsOf ([''1''], [[VInt 1], [VInt 2]]) []) =
     (None, \<lparr>ContentType = Some ''text/csv'', Status = Some 200,
             Out = [Record [''1''], Record [''1''], Record [''2'']]\<rparr>)
   \<and> Out (snd (writeAsCSV None new_response (rowsOf ([''1''], [[VInt 1], [VInt 2]]) [])))
       = map Record (spec_records [([''1''], [[VInt 1], [VInt 2]])])"
proof -
  have h: "\<forall>p\<in>set [([''1''], [[VInt 1], [VInt 2]])].
             \<forall>row\<in>set (snd p). length row = length (fst p)" by simp
  have g: "\<forall>q\<in>set [([''1''], [[VInt 1], [VInt 2]])]. fst q \<noteq> []" by simp
  have d: "itoa 1 = ''1''" "itoa 2 = ''2''" by code_simp+
  note r = writeAsCSV_records[OF h]
  from r have a: "writeAsCSV None new_response (rowsOf ([''1''], [[VInt 1], [VInt 2]]) []) =
     (None, \<lparr>ContentType = Some ''text/csv'', Status = Some 200,
             Out = [Record [''1''], Record [''1''], Record [''2'']]\<rparr>)"
    by (simp add: d)
  from r g have "Out (snd (writeAsCSV None new_response (rowsOf ([''1''], [[VInt 1], [VInt 2]]) [])))
       = map Record (spec_records [([''1''], [[VInt 1], [VInt 2]])])" by blast
  with a show ?thesis by blast
qed

text \<open>
  The claim as stated fails for a result set without columns: for one such
  result set with one row the code emits the record of the row only, where the
  claim has a header record before it.
\<close>

theorem writeAsCSV_header_counterexample:
  "Out (snd (writeAsCSV None new_response (rowsOf ([], [[]]) []))) = [Record []]
   \<and> map Record (spec_records [([], [[]])]) = [Record [], Record []]
   \<and> Out (snd (writeAsCSV None new_response (rowsOf ([], [[]]) [])))
       \<noteq> map Record (spec_records [([], [[]])])"
  by (simp add: writeAsCSV_def rowsOf_def resultSet_def writeResultSet_def
      writeHeaderRecord_def Scan_def csvWrite_def csvFlush_def WriteChunks_def
      WriteHeader_def SetContentType_def new_response_def spec_records_def)



text \<open>
  Claim C10. Within any sequence of result sets, a result set without columns
  contributes no header record (only the empty record of each of its rows),
  and a result set with at least one column contributes its header record
  followed by its rows.
\<close>

theorem writeAsCSV_header_only_with_columns:
  assumes "\<forall>p\<in>set (pre @ (names, rws) # post). \<forall>row\<in>set (snd p). length row = length (fst p)"
  shows "Out (snd (writeAsCSV None new_response
                     (rowsOf (hd (pre @ (names, rws) # post)) (tl (pre @ (names, rws) # post)))))
         = map Record
             (concat (map (\<lambda>q. (if fst q = [] then [] else [fst q])
                                @ map (map Sprint) (snd q)) pre)
              @ (if names = [] then replicate (length rws) []
                 else names # map (map Sprint) rws)
              @ concat (map (\<lambda>q. (if fst q = [] then [] else [fst q])
                                  @ map (map Sprint) (snd q)) post))"
proof -
  define f :: "string list \<times> scalar list list \<Rightarrow> string list list"
    where "f = (\<lambda>q. (if fst q = [] then [] else [fst q]) @ map (map Sprint) (snd q))"
  obtain p ps where l: "pre @ (names, rws) # post = p # ps" by (cases pre) auto
  have zero: "map (map Sprint) rws = replicate (length rws) []" if "names = []"
  proof -
    from assms that have "\<forall>row\<in>set rws. row = []" by auto
    then show ?thesis by (induction rws) simp_all
  qed
  have seg: "f (names, rws) = (if names = [] then replicate (length rws) []
                               else names # map (map Sprint) rws)"
    using zero by (simp add: f_def)
  from assms have "\<forall>p\<in>set (p # ps). \<forall>row\<in>set (snd p). length row = length (fst p)"
    unfolding l .
  from writeAsCSV_clean[OF this]
  have "Out (snd (writeAsCSV None new_response (rowsOf p ps))) = map Record (concat (map f (p # ps)))"
    by (simp only: snd_conv response.select_convs f_def)
  also have "p # ps = pre @ (names, rws) # post" by (simp only: l)
  also have "concat (map f (pre @ (names, rws) # post))
               = concat (map f pre) @ f (names, rws) @ concat (map f post)" by simp
  also note seg
  finally have "Out (snd (writeAsCSV None new_response (rowsOf p ps)))
      = map Record (concat (map f pre)
          @ (if names = [] then replicate (length rws) [] else names # map (map Sprint) rws)
          @ concat (map f post))" .
  then show ?thesis by (simp only: l list.sel f_def)
qed

theorem writeAsCSV_header_only_with_columns_witness:
  "Out (snd (writeAsCSV None new_response
               (rowsOf ([''n''], [[VInt 1]]) [([], [[], []]), ([''a'', ''b''], [])])))
     = [Record [''n''], Record [''1''], Record [], Record [], Record [''a'', ''b'']]"
proof -
  have h: "\<forall>p\<in>set ([([''n''], [[VInt 1]])] @ ([], [[], []]) # [([''a'', ''b''], [])]).
             \<forall>row\<in>set (snd p). length row = length (fst p)" by simp
  have d: "itoa 1 = ''1''" by code_simp
  from writeAsCSV_header_only_with_columns[OF h] show ?thesis by (simp add: d)
qed

end
